theory Spec2Isabelle
  imports Main
begin

section \<open>Python values\<close>

text \<open>
  The values that travel through the request engine: request parameters, decoded JSON
  bodies and the arguments of wrapped methods. Python's unbounded integers are \<open>int\<close>;
  a \<open>dict\<close> is an association list in insertion order with unique string keys.
  Floating-point JSON numbers are left out.
\<close>

datatype pyval =
    PNone
  | PBool bool
  | PInt int
  | PStr string
  | PList "pyval list"
  | PDict "(string \<times> pyval) list"

type_synonym pydict = "(string \<times> pyval) list"

text \<open>
  The exceptions of the source. Every failure the repository raises itself is a plain
  \<open>Exception(message)\<close>; the others are raised by the Python runtime or by the
  \<open>requests\<close> library. \<open>NotModelled\<close> marks the format-string features
  (conversions, format specs, attribute and index lookups, printing of containers) that
  this development does not cover.
\<close>

datatype error =
    Exception string
  | KeyError string
  | IndexError
  | TypeError
  | ValueError
  | AttributeError
  | JSONDecodeError
  | ConnectionError
  | NotModelled

text \<open>Python truthiness (\<open>bool(v)\<close>, as used by \<open>if v\<close>, \<open>not v\<close>, \<open>a or b\<close>).\<close>

fun truthy :: "pyval \<Rightarrow> bool" where
  "truthy PNone = False"
| "truthy (PBool b) = b"
| "truthy (PInt n) = (n \<noteq> 0)"
| "truthy (PStr s) = (s \<noteq> [])"
| "truthy (PList xs) = (xs \<noteq> [])"
| "truthy (PDict kvs) = (kvs \<noteq> [])"

fun is_dict :: "pyval \<Rightarrow> bool" where
  "is_dict (PDict kvs) = True"
| "is_dict v = False"

subsection \<open>Dictionaries\<close>

definition dict_keys :: "(string \<times> 'v) list \<Rightarrow> string list" where
  "dict_keys d = map fst d"

text \<open>\<open>d.get(k)\<close> as an option; \<open>d[k] = v\<close> overwrites in place or appends.\<close>

fun dict_get :: "(string \<times> 'v) list \<Rightarrow> string \<Rightarrow> 'v option" where
  "dict_get [] k = None"
| "dict_get ((k', v) # d) k = (if k' = k then Some v else dict_get d k)"

fun dict_set :: "(string \<times> 'v) list \<Rightarrow> string \<Rightarrow> 'v \<Rightarrow> (string \<times> 'v) list" where
  "dict_set [] k v = [(k, v)]"
| "dict_set ((k', v') # d) k v = (if k' = k then (k, v) # d else (k', v') # dict_set d k v)"

text \<open>\<open>d.pop(k)\<close>: the value and the remaining dictionary, \<open>KeyError\<close> when absent.\<close>

fun dict_pop :: "(string \<times> 'v) list \<Rightarrow> string \<Rightarrow> error + ('v \<times> (string \<times> 'v) list)" where
  "dict_pop [] k = Inl (KeyError k)"
| "dict_pop ((k', v) # d) k =
     (if k' = k then Inr (v, d)
      else (case dict_pop d k of
              Inl e \<Rightarrow> Inl e
            | Inr (w, d') \<Rightarrow> Inr (w, (k', v) # d')))"

text \<open>\<open>v.get(k)\<close> on a value: only a dict has the method; a missing key gives \<open>None\<close>.\<close>

fun py_get :: "pyval \<Rightarrow> string \<Rightarrow> error + pyval" where
  "py_get (PDict kvs) k = (case dict_get kvs k of None \<Rightarrow> Inr PNone | Some v \<Rightarrow> Inr v)"
| "py_get v k = Inl AttributeError"

text \<open>
  Iterating a value, as \<open>list.extend(v)\<close> and \<open>for x in v\<close> do: a list gives its
  elements, a string its characters, a dict its keys; the other values are not iterable.
\<close>

fun py_iter :: "pyval \<Rightarrow> error + pyval list" where
  "py_iter (PList xs) = Inr xs"
| "py_iter (PStr s) = Inr (map (\<lambda>c. PStr [c]) s)"
| "py_iter (PDict kvs) = Inr (map (\<lambda>kv. PStr (fst kv)) kvs)"
| "py_iter v = Inl TypeError"

subsection \<open>Printing\<close>

definition digit_char :: "nat \<Rightarrow> char" where
  "digit_char n = ''0123456789'' ! (n mod 10)"

function str_nat :: "nat \<Rightarrow> string" where
  "str_nat n = (if n < 10 then [digit_char n] else str_nat (n div 10) @ [digit_char n])"
  by pat_completeness auto
termination
  by (relation "measure id") auto

declare str_nat.simps [simp del]

definition str_int :: "int \<Rightarrow> string" where
  "str_int i = (if i < 0 then CHR ''-'' # str_nat (nat (- i)) else str_nat (nat i))"

text \<open>
  \<open>str(v)\<close> for the scalar values. Containers are outside the model, and so are
  integers of more than 4300 digits, which CPython 3.11 and later refuse to print
  (\<open>ValueError\<close>) and earlier versions print.
\<close>

definition int_max_str_digits :: nat where
  "int_max_str_digits = 4300"

fun py_str :: "pyval \<Rightarrow> string option" where
  "py_str PNone = Some ''None''"
| "py_str (PBool b) = Some (if b then ''True'' else ''False'')"
| "py_str (PInt i) =
     (if int_max_str_digits < length (str_nat (nat \<bar>i\<bar>)) then None else Some (str_int i))"
| "py_str (PStr s) = Some s"
| "py_str (PList xs) = None"
| "py_str (PDict kvs) = None"

section \<open>Format strings\<close>

text \<open>
  \<open>template.format(**kw)\<close> with keyword arguments only, read left to right:
  \<open>{{\<close> and \<open>}}\<close> are literal braces, \<open>{name}\<close> is replaced by
  \<open>str(kw[name])\<close>, a lone brace is a \<open>ValueError\<close>, a missing name a
  \<open>KeyError\<close>, and an empty or numeric field asks for a positional argument that
  is never there (\<open>IndexError\<close>); a number beyond the largest index of a 64-bit
  build is a \<open>ValueError\<close>. Strings are byte strings here, so only the ASCII digits
  count as digits.
\<close>

definition is_digit :: "char \<Rightarrow> bool" where
  "is_digit c = (c \<in> set ''0123456789'')"

definition field_special :: "char \<Rightarrow> bool" where
  "field_special c = (c \<in> set ''{!:.['')"

definition digit_of :: "char \<Rightarrow> int" where
  "digit_of c = int (length (takeWhile (\<lambda>d. d \<noteq> c) ''0123456789''))"

definition digits_value :: "string \<Rightarrow> int" where
  "digits_value name = foldl (\<lambda>a c. 10 * a + digit_of c) 0 name"

definition PY_SSIZE_T_MAX :: int where
  "PY_SSIZE_T_MAX = 9223372036854775807"

definition format_lookup :: "pydict \<Rightarrow> string \<Rightarrow> error + string" where
  "format_lookup kw name =
     (if list_all is_digit name then
        (if PY_SSIZE_T_MAX < digits_value name then Inl ValueError else Inl IndexError)
      else (case dict_get kw name of
              None \<Rightarrow> Inl (KeyError name)
            | Some v \<Rightarrow> (case py_str v of None \<Rightarrow> Inl NotModelled | Some s \<Rightarrow> Inr s)))"

definition prepend :: "string \<Rightarrow> error + string \<Rightarrow> error + string" where
  "prepend s r = (case r of Inl e \<Rightarrow> Inl e | Inr t \<Rightarrow> Inr (s @ t))"

fun format_text :: "pydict \<Rightarrow> string \<Rightarrow> error + string"
  and format_field :: "pydict \<Rightarrow> string \<Rightarrow> string \<Rightarrow> error + string" where
  "format_text kw [] = Inr []"
| "format_text kw (c # cs) =
     (if c = CHR ''{'' then
        (case cs of
           [] \<Rightarrow> Inl ValueError
         | d # ds \<Rightarrow> if d = CHR ''{'' then prepend ''{'' (format_text kw ds)
                     else format_field kw [] cs)
      else if c = CHR ''}'' then
        (case cs of
           [] \<Rightarrow> Inl ValueError
         | d # ds \<Rightarrow> if d = CHR ''}'' then prepend ''}'' (format_text kw ds)
                     else Inl ValueError)
      else prepend [c] (format_text kw cs))"
| "format_field kw name [] = Inl ValueError"
| "format_field kw name (c # cs) =
     (if c = CHR ''}'' then
        (case format_lookup kw name of
           Inl e \<Rightarrow> Inl e
         | Inr s \<Rightarrow> prepend s (format_text kw cs))
      else if field_special c then Inl NotModelled
      else format_field kw (name @ [c]) cs)"

definition py_format :: "string \<Rightarrow> pydict \<Rightarrow> error + string" where
  "py_format template kw = format_text kw template"

text \<open>
  A call \<open>f(a, b, **d)\<close> fails with \<open>TypeError\<close> when \<open>d\<close> has a key that
  names a parameter already bound.
\<close>

definition kw_clash :: "string list \<Rightarrow> pydict \<Rightarrow> bool" where
  "kw_clash names d = list_ex (\<lambda>k. k \<in> set names) (dict_keys d)"

section \<open>Configuration and repository context\<close>

text \<open>
  \<open>Repository\<close> and the process-wide \<open>GitHub\<close> settings live in a module that is
  not part of the sources at hand; the engine only reads these fields of them.
\<close>

record repository =
  owner :: string
  repo :: string
  reference :: "string option"

record github =
  gh_repository :: "repository option"
  gh_token :: "string option"
  gh_api_rest :: string
  gh_api_graphql :: string

section \<open>Octokit: routes\<close>

text \<open>
  \<open>Octokit.formatPath(path, repo, **options)\<close>. An option named like one of its
  parameters makes the call a \<open>TypeError\<close>, and so does one named like a keyword it
  passes to \<open>str.format\<close> itself.
\<close>

definition formatPath :: "string \<Rightarrow> repository \<Rightarrow> pydict \<Rightarrow> error + string" where
  "formatPath path rp options =
     (if kw_clash [''path'', ''repo''] options then Inl TypeError
      else if kw_clash [''owner'', ''org'', ''repo''] options then Inl TypeError
      else py_format path
             ([(''owner'', PStr (owner rp)), (''org'', PStr (owner rp)),
               (''repo'', PStr (repo rp))] @ options))"

text \<open>\<open>s.startswith("/")\<close>.\<close>

definition startswith_slash :: "string \<Rightarrow> bool" where
  "startswith_slash s = (case s of [] \<Rightarrow> False | c # cs \<Rightarrow> c = CHR ''/'')"

text \<open>
  \<open>Octokit.route(path, repository, rtype, **options)\<close>. An option named like one of
  its parameters makes the call a \<open>TypeError\<close>. Its first step is the call
  \<open>Octokit.formatPath(path, repository, **options)\<close>.
\<close>

definition route :: "github \<Rightarrow> string \<Rightarrow> repository \<Rightarrow> string \<Rightarrow> pydict \<Rightarrow> error + string" where
  "route gh path rp rtype options =
     (if kw_clash [''path'', ''repository'', ''rtype''] options then Inl TypeError
      else (case formatPath path rp options of
              Inl e \<Rightarrow> Inl e
            | Inr formatted_path \<Rightarrow>
                (let formatted_path =
                       (if \<not> startswith_slash formatted_path
                        then ''/'' @ formatted_path else formatted_path);
                     url = (if rtype = ''rest'' then gh_api_rest gh else gh_api_graphql gh)
                 in Inr (url @ formatted_path))))"

subsection \<open>Path templates\<close>











section \<open>HTTP sessions and the observable effects\<close>

text \<open>
  A session sends a request and gets a response, or the transport raises. A response
  carries its status, its raw text and what \<open>.json()\<close> decodes from it (\<open>None\<close>
  when the text is not JSON, where \<open>.json()\<close> raises).
\<close>

type_synonym headers = "(string \<times> string) list"

datatype request =
    GET string headers pydict
  | POST string headers pyval

record response =
  status_code :: int
  content :: string
  json :: "pyval option"

type_synonym transport = "request \<Rightarrow> error + response"

text \<open>
  A log record keeps the level, the fixed text of the message and the value interpolated
  after it, if any.
\<close>

datatype level = Debug | Warning | Error

datatype log_entry = Log level string "pyval option"

text \<open>
  What a call leaves behind: the requests sent, the log, the documents written to files,
  and the one dictionary object that is the default value of the \<open>parameters\<close>
  argument of \<open>RestRequest.get\<close> (created once, when the function is defined).
\<close>

record world =
  http_log :: "request list"
  logged :: "log_entry list"
  files :: "(string \<times> pyval) list"
  get_parameters_default :: pydict

definition send :: "transport \<Rightarrow> request \<Rightarrow> world \<Rightarrow> (error + response) \<times> world" where
  "send http req w = (http req, w\<lparr>http_log := http_log w @ [req]\<rparr>)"

definition logger :: "level \<Rightarrow> string \<Rightarrow> pyval option \<Rightarrow> world \<Rightarrow> world" where
  "logger lvl msg v w = w\<lparr>logged := logged w @ [Log lvl msg v]\<rparr>"

section \<open>RestRequest\<close>

text \<open>
  The constants of the module. \<open>REST_MAX_CALLS\<close> feeds the decorators
  \<open>@sleep_and_retry\<close> and \<open>@limits(calls=REST_MAX_CALLS, period=60)\<close> of the
  third-party \<open>ratelimit\<close> package around \<open>get\<close>. They delay a call in real
  time and do not change what it computes, so they have no counterpart below.
\<close>

definition REST_MAX_CALLS :: int where
  "REST_MAX_CALLS = 80"

definition OCTOKIT_ERRORS :: "int \<Rightarrow> string option" where
  "OCTOKIT_ERRORS status = (if status = 401 then Some ''Authentication Issue'' else None)"

definition PER_PAGE :: int where
  "PER_PAGE = 100"

definition VERSION :: string where
  "VERSION = ''2022-11-28''"

record rest_request =
  rest_repository :: "repository option"
  rest_headers :: headers

text \<open>\<open>str(GitHub.token)\<close> inside the f-string: an absent token prints as \<open>None\<close>.\<close>

definition str_token :: "string option \<Rightarrow> string" where
  "str_token t = (case t of None \<Rightarrow> ''None'' | Some s \<Rightarrow> s)"

text \<open>\<open>a or b\<close> on optional objects: the first one that is there.\<close>

definition or_else :: "'a option \<Rightarrow> 'a option \<Rightarrow> 'a option" where
  "or_else a b = (case a of None \<Rightarrow> b | Some x \<Rightarrow> Some x)"

definition RestRequest_init :: "github \<Rightarrow> repository option \<Rightarrow> rest_request" where
  "RestRequest_init gh repository =
     \<lparr>rest_repository = or_else repository (gh_repository gh),
      rest_headers =
        [(''Accept'', ''application/vnd.github.v3+json''),
         (''X-GitHub-Api-Version'', VERSION),
         (''Authorization'', ''token '' @ str_token (gh_token gh))]\<rparr>"

text \<open>
  The test \<open>self.session.headers.get("Authorization")\<close>: the header is there and
  is not the empty string.
\<close>

definition has_authorization :: "rest_request \<Rightarrow> bool" where
  "has_authorization self =
     (case dict_get (rest_headers self) ''Authorization'' of
        None \<Rightarrow> False
      | Some a \<Rightarrow> a \<noteq> [])"

text \<open>
  One pass through the body of the pagination loop of \<open>get\<close>, for the page
  index \<open>page\<close>: either the call ends (it raises, returns the single object, or
  breaks out and returns the accumulated list), or the loop goes on with the next page.
  The parameters dictionary is the one the caller passed, updated in place.
\<close>

type_synonym get_result = "(error + pyval) \<times> pydict \<times> world"

datatype iteration = Ends get_result | Goes_on pydict "pyval list" world

definition get_page ::
  "transport \<Rightarrow> headers \<Rightarrow> string \<Rightarrow> int \<Rightarrow> pydict \<Rightarrow> pyval list \<Rightarrow> int \<Rightarrow> world
     \<Rightarrow> iteration" where
  "get_page http hdrs url expected params result page w =
     (let params = dict_set params ''page'' (PInt page);
          (sent, w) = send http (GET url hdrs params) w
      in case sent of
           Inl e \<Rightarrow> Ends (Inl e, params, w)
         | Inr responce \<Rightarrow>
             (case json responce of
                None \<Rightarrow> Ends (Inl JSONDecodeError, params, w)
              | Some responce_json \<Rightarrow>
                  if status_code responce \<noteq> expected then
                    (let w = logger Error ''Error code from server :: ''
                               (Some (PInt (status_code responce))) w;
                         w = logger Error ''Content :: '' (Some responce_json) w
                     in case OCTOKIT_ERRORS (status_code responce) of
                          Some known_error \<Rightarrow>
                            if known_error \<noteq> [] then Ends (Inl (Exception known_error), params, w)
                            else Ends (Inl (Exception
                                   ''REST Request failed :: non-expected server error''), params, w)
                        | None \<Rightarrow>
                            Ends (Inl (Exception
                              ''REST Request failed :: non-expected server error''), params, w))
                  else if is_dict responce_json
                          \<and> (case py_get responce_json ''errors'' of
                                Inl e \<Rightarrow> False | Inr v \<Rightarrow> truthy v) then
                    (let w = logger Error []
                               (case py_get responce_json ''message'' of
                                  Inl e \<Rightarrow> None | Inr v \<Rightarrow> Some v) w
                     in Ends (Inl (Exception ''REST Request failed :: error from server''),
                              params, w))
                  else if is_dict responce_json then Ends (Inr responce_json, params, w)
                  else
                    (case py_iter responce_json of
                       Inl e \<Rightarrow> Ends (Inl e, params, w)
                     | Inr elements \<Rightarrow>
                         (let result = result @ elements
                          in if int (length elements) < PER_PAGE
                             then Ends (Inr (PList result), params, w)
                             else Goes_on params result w))))"

text \<open>
  The loop itself, \<open>while True\<close> with \<open>page += 1\<close>. It has no bound of its own:
  a server that keeps sending full pages keeps it running, and then the value is
  \<open>None\<close>.
\<close>

partial_function (option) get_loop ::
  "transport \<Rightarrow> headers \<Rightarrow> string \<Rightarrow> int \<Rightarrow> pydict \<Rightarrow> pyval list \<Rightarrow> int \<Rightarrow> world
     \<Rightarrow> get_result option" where
  "get_loop http hdrs url expected params result page w =
     (case get_page http hdrs url expected params result page w of
        Ends r \<Rightarrow> Some r
      | Goes_on params' result' w' \<Rightarrow>
          get_loop http hdrs url expected params' result' (page + 1) w')"

declare get_loop.simps [code]

text \<open>
  \<open>RestRequest.get(path, parameters, expected, authenticated)\<close>. An omitted
  \<open>parameters\<close> argument (\<open>None\<close> here) is the shared default dictionary, and what
  the call does to it stays in the world. The parameters are passed on as the options of
  \<open>Octokit.route\<close>, so a parameter named like a parameter of \<open>route\<close> ends the
  call there.
\<close>

definition get ::
  "github \<Rightarrow> transport \<Rightarrow> rest_request \<Rightarrow> string \<Rightarrow> pydict option \<Rightarrow> int \<Rightarrow> bool \<Rightarrow> world
     \<Rightarrow> get_result option" where
  "get gh http self path parameters expected authenticated w =
     (let params0 = (case parameters of None \<Rightarrow> get_parameters_default w | Some d \<Rightarrow> d);
          keep = (\<lambda>r. case r of
                    None \<Rightarrow> None
                  | Some (out, params, w') \<Rightarrow>
                      Some (out, params,
                            case parameters of
                              None \<Rightarrow> w'\<lparr>get_parameters_default := params\<rparr>
                            | Some d \<Rightarrow> w'))
      in keep
        (case or_else (rest_repository self) (gh_repository gh) of
           None \<Rightarrow> Some (Inl (Exception ''Repository needs to be set''), params0, w)
         | Some rp \<Rightarrow>
             if kw_clash [''path'', ''repository'', ''rtype''] params0
             then Some (Inl TypeError, params0, w)
             else
               (case route gh path rp ''rest'' params0 of
                  Inl e \<Rightarrow> Some (Inl e, params0, w)
                | Inr url \<Rightarrow>
                    (let w = logger Debug ''Fetching content from URL :: '' (Some (PStr url)) w
                     in if authenticated \<and> \<not> has_authorization self
                        then Some (Inl (Exception ''GitHub Token required for this request''),
                                   params0, w)
                        else
                          (let params = dict_set params0 ''per_page'' (PInt PER_PAGE)
                           in get_loop http (rest_headers self) url expected params [] 1 w)))))"

definition postJson ::
  "github \<Rightarrow> transport \<Rightarrow> rest_request \<Rightarrow> string \<Rightarrow> pyval \<Rightarrow> int \<Rightarrow> world
     \<Rightarrow> (error + pyval) \<times> world" where
  "postJson gh http self path data expected w =
     (case or_else (rest_repository self) (gh_repository gh) of
        None \<Rightarrow> (Inl (Exception ''Repository needs to be set''), w)
      | Some rp \<Rightarrow>
          (case route gh path rp ''rest'' [] of
             Inl e \<Rightarrow> (Inl e, w)
           | Inr url \<Rightarrow>
               (let w = logger Debug ''Posting content from URL :: '' (Some (PStr url)) w;
                    (sent, w) = send http (POST url (rest_headers self) data) w
                in case sent of
                     Inl e \<Rightarrow> (Inl e, w)
                   | Inr response \<Rightarrow>
                       if status_code response \<noteq> expected then
                         (let w = logger Error ''Error code from server :: ''
                                    (Some (PInt (status_code response))) w
                          in case OCTOKIT_ERRORS (status_code response) of
                               Some known_error \<Rightarrow>
                                 if known_error \<noteq> [] then (Inl (Exception known_error), w)
                                 else (Inl (Exception ''Failed to post data''), w)
                             | None \<Rightarrow> (Inl (Exception ''Failed to post data''), w))
                       else
                         (case json response of
                            None \<Rightarrow> (Inl JSONDecodeError, w)
                          | Some v \<Rightarrow> (Inr v, w)))))"

section \<open>The \<open>restGet\<close> decorator\<close>

text \<open>
  What the decorator reads of the function it wraps: the names of its parameters in
  declaration order (\<open>inspect.getfullargspec(func).args\<close>, \<open>self\<close> first), the
  default values of the last of them, whether it takes \<open>**kwargs\<close>, and its body as
  a function of the bound arguments.
\<close>

record pyfunc =
  fn_args :: "string list"
  fn_defaults :: "pyval list"
  fn_varkw :: bool
  fn_body :: "pydict \<Rightarrow> error + pyval"

text \<open>\<open>xs[i]\<close>: a negative index counts from the end, out of range raises.\<close>

definition py_index :: "'a list \<Rightarrow> int \<Rightarrow> error + 'a" where
  "py_index xs i =
     (if 0 \<le> i \<and> i < int (length xs) then Inr (xs ! nat i)
      else if i < 0 \<and> - int (length xs) \<le> i then Inr (xs ! nat (int (length xs) + i))
      else Inl IndexError)"

text \<open>
  The loop of \<open>wrap\<close> over the declared parameter names. It fills \<open>params\<close>,
  counts the positional arguments used in \<open>args_index\<close> and sets \<open>response\<close>
  when a parameter has that name.
\<close>

fun build_params ::
  "string list \<Rightarrow> pyval list \<Rightarrow> pyval list \<Rightarrow> pydict \<Rightarrow> int \<Rightarrow> bool \<Rightarrow> error + (pydict \<times> bool)"
  where
  "build_params [] args defaults params args_index response = Inr (params, response)"
| "build_params (argv # names) args defaults params args_index response =
     (if argv = ''self'' then build_params names args defaults params args_index response
      else
        (let response = (if argv = ''response'' then True else response);
             argv_value = PNone;
             argv_value = (if int (length args) > args_index then args ! nat args_index
                           else argv_value)
         in case (if \<not> truthy argv_value \<and> int (length defaults) < 0
                  then py_index defaults (int (length defaults) - args_index)
                  else Inr argv_value) of
              Inl e \<Rightarrow> Inl e
            | Inr argv_value \<Rightarrow>
                build_params names args defaults (dict_set params argv argv_value)
                  (args_index + 1) response))"

text \<open>
  Calling the wrapped function as \<open>func(self, **keywords)\<close>: the first declared
  parameter takes \<open>self\<close>; a keyword must name one of the other parameters unless the
  function takes \<open>**kwargs\<close>; a parameter left without a value needs a default.
\<close>

definition has_default :: "pyfunc \<Rightarrow> nat \<Rightarrow> bool" where
  "has_default func i = (length (fn_args func) \<le> i + length (fn_defaults func))"

definition default_of :: "pyfunc \<Rightarrow> nat \<Rightarrow> pyval" where
  "default_of func i = fn_defaults func ! (i + length (fn_defaults func) - length (fn_args func))"

fun bind_args :: "pyfunc \<Rightarrow> pydict \<Rightarrow> nat \<Rightarrow> string list \<Rightarrow> error + pydict" where
  "bind_args func keywords i [] = Inr []"
| "bind_args func keywords i (name # names) =
     (case (case dict_get keywords name of
              Some v \<Rightarrow> Inr v
            | None \<Rightarrow> if has_default func i then Inr (default_of func i) else Inl TypeError) of
        Inl e \<Rightarrow> Inl e
      | Inr v \<Rightarrow>
          (case bind_args func keywords (Suc i) names of
             Inl e \<Rightarrow> Inl e
           | Inr bound \<Rightarrow> Inr ((name, v) # bound)))"

definition unexpected_keyword :: "pyfunc \<Rightarrow> string \<Rightarrow> string list \<Rightarrow> string \<Rightarrow> bool" where
  "unexpected_keyword func self_name names k =
     (if k = self_name then True
      else if k \<in> set names then False
      else \<not> fn_varkw func)"

definition py_call :: "pyfunc \<Rightarrow> pydict \<Rightarrow> error + pyval" where
  "py_call func keywords =
     (case fn_args func of
        [] \<Rightarrow> Inl TypeError
      | self_name # names \<Rightarrow>
          if list_ex (unexpected_keyword func self_name names) (dict_keys keywords)
          then Inl TypeError
          else (case bind_args func keywords 1 names of
                  Inl e \<Rightarrow> Inl e
                | Inr bound \<Rightarrow>
                    fn_body func (bound @ filter (\<lambda>kv. fst kv \<notin> set names) keywords)))"

text \<open>
  \<open>wrap(self, *args, **kwargs)\<close> for \<open>@RestRequest.restGet(url, authenticated)\<close>
  around \<open>func\<close>. \<open>self_rest\<close> is the \<open>rest\<close> attribute of \<open>self\<close>, if it has
  one. A keyword argument named \<open>self\<close> makes the call of \<open>wrap\<close> itself a
  \<open>TypeError\<close>. The keyword \<open>responce\<close> in the call of \<open>func\<close> is spelt as in
  the source.
\<close>

definition restGet ::
  "github \<Rightarrow> transport \<Rightarrow> string \<Rightarrow> bool \<Rightarrow> pyfunc \<Rightarrow> rest_request option \<Rightarrow> pyval list
     \<Rightarrow> pydict \<Rightarrow> world \<Rightarrow> ((error + pyval) \<times> world) option" where
  "restGet gh http url authenticated func self_rest args kwargs w =
     (if kw_clash [''self''] kwargs then Some (Inl TypeError, w)
      else
      (let rest = (case self_rest of Some r \<Rightarrow> r | None \<Rightarrow> RestRequest_init gh None)
      in case build_params (fn_args func) args (fn_defaults func) [] 0 False of
           Inl e \<Rightarrow> Some (Inl e, w)
         | Inr (params, response) \<Rightarrow>
             (case get gh http rest url (Some params) 200 False w of
                None \<Rightarrow> None
              | Some (Inl e, params', w') \<Rightarrow> Some (Inl e, w')
              | Some (Inr result, params', w') \<Rightarrow>
                  if response then
                    (if kw_clash [''responce''] kwargs then Some (Inl TypeError, w')
                     else Some (py_call func ((''responce'', result) # kwargs), w'))
                  else Some (Inr result, w'))))"

section \<open>GraphQLRequest\<close>

text \<open>
  The queries are those \<open>loadQueries\<close> found on disk. \<open>formatQuery\<close> hands the
  template to \<open>string.Template.substitute\<close>, which is a parameter here. The
  30 seconds the POST may take are a matter of the transport.
\<close>

record graphql_request =
  gql_headers :: headers
  gql_queries :: "(string \<times> string) list"

definition GraphQLRequest_init :: "github \<Rightarrow> (string \<times> string) list \<Rightarrow> graphql_request" where
  "GraphQLRequest_init gh loaded =
     \<lparr>gql_headers =
        [(''Accept'', ''application/vnd.github.hawkgirl-preview+json''),
         (''Authorization'', ''token '' @ str_token (gh_token gh))],
      gql_queries = loaded\<rparr>"

definition formatQuery ::
  "(string \<Rightarrow> pydict \<Rightarrow> error + string) \<Rightarrow> string \<Rightarrow> pydict \<Rightarrow> error + string" where
  "formatQuery substitute query options =
     (if kw_clash [''self'', ''query''] options then Inl TypeError
      else substitute query options)"

text \<open>The \<open>message\<close> of a reported error, as the warning shows it.\<close>

definition message_of :: "pyval \<Rightarrow> pyval option" where
  "message_of err = (case py_get err ''message'' of Inl e \<Rightarrow> None | Inr m \<Rightarrow> Some m)"

text \<open>The loop over the reported errors: one warning each, in order.\<close>

fun warn_errors :: "pyval list \<Rightarrow> world \<Rightarrow> error option \<times> world" where
  "warn_errors [] w = (None, w)"
| "warn_errors (err # errs) w =
     (case py_get err ''message'' of
        Inl e \<Rightarrow> (Some e, w)
      | Inr m \<Rightarrow> warn_errors errs (logger Warning ''GraphQL Query failed :: '' (Some m) w))"

definition query ::
  "github \<Rightarrow> transport \<Rightarrow> (string \<Rightarrow> pydict \<Rightarrow> error + string) \<Rightarrow> graphql_request \<Rightarrow> string
     \<Rightarrow> pydict \<Rightarrow> world \<Rightarrow> (error + pyval) \<times> world" where
  "query gh http substitute self name options w =
     (case dict_get (gql_queries self) name of
        None \<Rightarrow> (Inr (PDict []), w)
      | Some query_content \<Rightarrow>
          if query_content = [] then (Inr (PDict []), w)
          else
            (case formatQuery substitute query_content options of
               Inl e \<Rightarrow> (Inl e, w)
             | Inr q \<Rightarrow>
                 (let (sent, w) = send http (POST (gh_api_graphql gh) (gql_headers self)
                                               (PDict [(''query'', PStr q)])) w
                  in case sent of
                       Inl e \<Rightarrow> (Inl e, w)
                     | Inr response \<Rightarrow>
                         if status_code response \<noteq> 200 then
                           (let w = logger Error ''GraphQL API Status :: ''
                                      (Some (PInt (status_code response))) w;
                                w = logger Error ''GraphQL Content :: ''
                                      (Some (PStr (content response))) w
                            in (Inl (Exception ''Failed to get data from GraphQL API''), w))
                         else
                           (case json response of
                              None \<Rightarrow> (Inl JSONDecodeError, w)
                            | Some rjson \<Rightarrow>
                                (case py_get rjson ''errors'' of
                                   Inl e \<Rightarrow> (Inl e, w)
                                 | Inr errs \<Rightarrow>
                                     if truthy errs then
                                       (case py_iter errs of
                                          Inl e \<Rightarrow> (Inl e, w)
                                        | Inr es \<Rightarrow>
                                            (case warn_errors es w of
                                               (Some e, w) \<Rightarrow> (Inl e, w)
                                             | (None, w) \<Rightarrow> (Inr rjson, w)))
                                     else (Inr rjson, w))))))"

section \<open>CodeScanning\<close>

record code_scanning =
  cs_repository :: repository
  cs_rest :: rest_request

definition CodeScanning_init :: "github \<Rightarrow> repository option \<Rightarrow> error + code_scanning" where
  "CodeScanning_init gh repository =
     (case or_else repository (gh_repository gh) of
        None \<Rightarrow> Inl (Exception ''CodeScanning requires Repository to be set'')
      | Some rp \<Rightarrow> Inr \<lparr>cs_repository = rp, cs_rest = RestRequest_init gh (Some rp)\<rparr>)"

text \<open>
  \<open>getAlerts\<close> as declared: three parameters with defaults and a body that returns
  the empty list, under \<open>@RestRequest.restGet(..., authenticated=True)\<close>.
\<close>

definition getAlerts_func :: pyfunc where
  "getAlerts_func =
     \<lparr>fn_args = [''self'', ''state'', ''tool_name'', ''ref''],
      fn_defaults = [PStr ''open'', PNone, PNone],
      fn_varkw = False,
      fn_body = (\<lambda>bound. Inr (PList []))\<rparr>"

definition getAlerts ::
  "github \<Rightarrow> transport \<Rightarrow> code_scanning \<Rightarrow> pyval list \<Rightarrow> pydict \<Rightarrow> world
     \<Rightarrow> ((error + pyval) \<times> world) option" where
  "getAlerts gh http self args kwargs w =
     restGet gh http ''/repos/{owner}/{repo}/code-scanning/alerts'' True getAlerts_func
       (Some (cs_rest self)) args kwargs w"

text \<open>
  \<open>downloadSARIF(output, sarif_id)\<close>. The session headers belong to the
  \<open>RestRequest\<close> of the object, so the object comes back with the headers as the call
  leaves them. Writing the file is recorded in the world and taken to succeed.
\<close>

definition set_accept :: "code_scanning \<Rightarrow> headers \<Rightarrow> code_scanning" where
  "set_accept self hdrs = self\<lparr>cs_rest := (cs_rest self)\<lparr>rest_headers := hdrs\<rparr>\<rparr>"

definition downloadSARIF ::
  "github \<Rightarrow> transport \<Rightarrow> code_scanning \<Rightarrow> string \<Rightarrow> int \<Rightarrow> world
     \<Rightarrow> ((error + bool) \<times> code_scanning \<times> world) option" where
  "downloadSARIF gh http self output sarif_id w =
     (let w = logger Debug ''Downloading SARIF file :: '' (Some (PInt sarif_id)) w
      in case dict_pop (rest_headers (cs_rest self)) ''Accept'' of
           Inl e \<Rightarrow> Some (Inl e, self, w)
         | Inr (og_accept, hdrs) \<Rightarrow>
             (let self = set_accept self (dict_set hdrs ''Accept'' ''application/sarif+json'')
              in case get gh http (cs_rest self)
                        ''/repos/{org}/{repo}/code-scanning/analyses/{sarif_id}''
                        (Some [(''sarif_id'', PInt sarif_id)]) 200 False w of
                   None \<Rightarrow> None
                 | Some (Inl e, params, w) \<Rightarrow> Some (Inl e, self, w)
                 | Some (Inr result, params, w) \<Rightarrow>
                     (let self = set_accept self
                                   (dict_set (rest_headers (cs_rest self)) ''Accept'' og_accept);
                          w = logger Debug ''Saving SARIF file to :: '' (Some (PStr output)) w;
                          w = w\<lparr>files := dict_set (files w) output result\<rparr>;
                          w = logger Debug ''Saved SARIF file'' None w
                      in Some (Inr True, self, w))))"

section \<open>Concrete scenarios\<close>

text \<open>
  A configuration without a token, a repository \<open>A/B\<close>, an empty world and a few
  servers, used to run the definitions above on explicit inputs.
\<close>

definition gh0 :: github where
  "gh0 = \<lparr>gh_repository = None, gh_token = None,
          gh_api_rest = ''https://api.github.com'',
          gh_api_graphql = ''https://api.github.com/graphql''\<rparr>"

definition rp0 :: repository where
  "rp0 = \<lparr>owner = ''A'', repo = ''B'', reference = None\<rparr>"

definition w0 :: world where
  "w0 = \<lparr>http_log = [], logged = [], files = [], get_parameters_default = []\<rparr>"

definition answer :: "int \<Rightarrow> pyval option \<Rightarrow> error + response" where
  "answer status body = Inr \<lparr>status_code = status, content = [], json = body\<rparr>"

definition page_of :: "request \<Rightarrow> pyval option" where
  "page_of req =
     (case req of
        GET url hdrs params \<Rightarrow> dict_get params ''page''
      | POST url hdrs v \<Rightarrow> None)"

text \<open>A server with 102 alerts: a full first page, then a page of two.\<close>

definition two_pages :: transport where
  "two_pages req =
     (if page_of req = Some (PInt 1) then answer 200 (Some (PList (replicate 100 (PInt 0))))
      else answer 200 (Some (PList [PInt 1, PInt 2])))"

text \<open>A server that has nothing to list, one that answers with a single object, and one
  that does not know the resource.\<close>

definition always_empty :: transport where
  "always_empty req = answer 200 (Some (PList []))"

definition one_alert :: transport where
  "one_alert req = answer 200 (Some (PDict [(''number'', PInt 7)]))"

definition not_found :: transport where
  "not_found req = answer 404 (Some (PDict [(''message'', PStr ''Not Found'')]))"

definition cs0 :: code_scanning where
  "cs0 = \<lparr>cs_repository = rp0, cs_rest = RestRequest_init gh0 (Some rp0)\<rparr>"

text \<open>
  A method that declares a \<open>response\<close> parameter and returns the alert number found
  in it: \<open>def number(self, response): return response.get("number")\<close>.
\<close>

definition number_func :: pyfunc where
  "number_func =
     \<lparr>fn_args = [''self'', ''response''],
      fn_defaults = [],
      fn_varkw = False,
      fn_body = (\<lambda>bound. case dict_get bound ''response'' of
                            None \<Rightarrow> Inl TypeError
                          | Some v \<Rightarrow> py_get v ''number'')\<rparr>"

text \<open>A server that rejects the credentials, with a JSON body and with an HTML page.\<close>

definition bad_credentials :: transport where
  "bad_credentials req = answer 401 (Some (PDict [(''message'', PStr ''Bad credentials'')]))"

definition unauthorized_page :: transport where
  "unauthorized_page req =
     Inr \<lparr>status_code = 401, content = ''<html>401 Authorization Required</html>'', json = None\<rparr>"


text \<open>
  Servers that answer 200 with an object that has an \<open>errors\<close> field: an empty
  list, a REST validation failure, and a GraphQL answer with partial data and two
  reported errors. One GraphQL query is loaded, and nothing is substituted in it.
\<close>

definition no_errors :: transport where
  "no_errors req = answer 200 (Some (PDict [(''errors'', PList [])]))"

definition validation_failed :: transport where
  "validation_failed req =
     answer 200 (Some (PDict [(''message'', PStr ''Validation Failed''),
                              (''errors'', PList [PDict [(''code'', PStr ''invalid'')]])]))"

definition partial_data :: transport where
  "partial_data req =
     answer 200 (Some (PDict [(''data'', PDict [(''repository'', PNone)]),
                              (''errors'', PList [PDict [(''message'', PStr ''Could not resolve'')],
                                                  PDict [(''type'', PStr ''NOT_FOUND'')]])]))"

definition gql0 :: graphql_request where
  "gql0 = GraphQLRequest_init gh0 [(''GetRepository'', ''query { repository { name } }'')]"

definition keep_text :: "string \<Rightarrow> pydict \<Rightarrow> error + string" where
  "keep_text q options = Inr q"


section \<open>Properties\<close>

subsection \<open>Dictionaries\<close>

lemma dict_set_twice: "dict_set (dict_set d k a) k b = dict_set d k b"
  by (induction d) auto

lemma dict_get_set_same: "dict_get (dict_set d k v) k = Some v"
  by (induction d) auto

lemma dict_get_set_other: "k' \<noteq> k \<Longrightarrow> dict_get (dict_set d k v) k' = dict_get d k'"
  by (induction d) auto

lemmas route_eval = route_def formatPath_def kw_clash_def dict_keys_def py_format_def
  startswith_slash_def prepend_def format_lookup_def is_digit_def field_special_def str_int_def
  digit_char_def int_max_str_digits_def str_nat.simps

subsection \<open>Pagination\<close>

lemma get_page_full:
  assumes "http (GET url hdrs (dict_set params ''page'' (PInt page))) = Inr r"
    and "status_code r = expected" and "json r = Some (PList xs)" and "length xs = 100"
  shows "get_page http hdrs url expected params result page w =
           Goes_on (dict_set params ''page'' (PInt page)) (result @ xs)
             (w\<lparr>http_log := http_log w @ [GET url hdrs (dict_set params ''page'' (PInt page))]\<rparr>)"
  using assms by (simp add: get_page_def send_def PER_PAGE_def Let_def)

lemma get_page_short:
  assumes "http (GET url hdrs (dict_set params ''page'' (PInt page))) = Inr r"
    and "status_code r = expected" and "json r = Some (PList xs)" and "length xs < 100"
  shows "get_page http hdrs url expected params result page w =
           Ends (Inr (PList (result @ xs)), dict_set params ''page'' (PInt page),
             w\<lparr>http_log := http_log w @ [GET url hdrs (dict_set params ''page'' (PInt page))]\<rparr>)"
  using assms by (simp add: get_page_def send_def PER_PAGE_def Let_def)

text \<open>
  The loop started at any page index: \<open>k\<close> full pages and then a short one make it
  stop after \<open>k + 1\<close> requests with all elements, in order, behind what it had.
\<close>

lemma get_loop_pages:
  assumes "\<forall>i<k. \<exists>r. http (GET url hdrs (dict_set params ''page'' (PInt (page + int i)))) = Inr r
               \<and> status_code r = expected \<and> json r = Some (PList (pg i)) \<and> length (pg i) = 100"
    and "\<exists>r. http (GET url hdrs (dict_set params ''page'' (PInt (page + int k)))) = Inr r
               \<and> status_code r = expected \<and> json r = Some (PList (pg k)) \<and> length (pg k) < 100"
  shows "get_loop http hdrs url expected params result page w =
           Some (Inr (PList (result @ concat (map pg [0..<Suc k]))),
                 dict_set params ''page'' (PInt (page + int k)),
                 w\<lparr>http_log := http_log w @
                     map (\<lambda>i. GET url hdrs (dict_set params ''page'' (PInt (page + int i)))) [0..<Suc k]\<rparr>)"
  using assms
proof (induction k arbitrary: params result page w pg)
  case 0
  then obtain r where r: "http (GET url hdrs (dict_set params ''page'' (PInt page))) = Inr r"
    "status_code r = expected" "json r = Some (PList (pg 0))" "length (pg 0) < 100"
    by auto
  show ?case
    using r by (subst get_loop.simps) (simp add: get_page_short [where r = r])
next
  case (Suc k)
  from Suc.prems(1) obtain r where r: "http (GET url hdrs (dict_set params ''page'' (PInt page))) = Inr r"
    "status_code r = expected" "json r = Some (PList (pg 0))" "length (pg 0) = 100"
    by force
  let ?params = "dict_set params ''page'' (PInt page)"
  have full: "\<forall>i<k. \<exists>r. http (GET url hdrs (dict_set ?params ''page'' (PInt (page + 1 + int i)))) = Inr r
               \<and> status_code r = expected \<and> json r = Some (PList (pg (Suc i))) \<and> length (pg (Suc i)) = 100"
  proof (intro allI impI)
    fix i assume "i < k"
    then have "Suc i < Suc k" by simp
    with Suc.prems(1) show "\<exists>r. http (GET url hdrs (dict_set ?params ''page'' (PInt (page + 1 + int i)))) = Inr r
               \<and> status_code r = expected \<and> json r = Some (PList (pg (Suc i))) \<and> length (pg (Suc i)) = 100"
      by (fastforce simp: dict_set_twice add.commute add.left_commute)
  qed
  have last: "\<exists>r. http (GET url hdrs (dict_set ?params ''page'' (PInt (page + 1 + int k)))) = Inr r
               \<and> status_code r = expected \<and> json r = Some (PList (pg (Suc k))) \<and> length (pg (Suc k)) < 100"
    using Suc.prems(2) by (simp add: dict_set_twice add.commute add.left_commute)
  note IH = Suc.IH [of ?params "page + 1" "\<lambda>i. pg (Suc i)", OF full last]
  have reqs: "map (\<lambda>i. GET url hdrs (dict_set params ''page'' (PInt (page + int i)))) [0..<Suc (Suc k)]
      = GET url hdrs ?params # map (\<lambda>i. GET url hdrs (dict_set ?params ''page'' (PInt (page + 1 + int i)))) [0..<Suc k]"
    by (subst map_upt_Suc) (simp add: dict_set_twice add.commute add.left_commute)
  have pages: "concat (map pg [0..<Suc (Suc k)]) = pg 0 @ concat (map (\<lambda>i. pg (Suc i)) [0..<Suc k])"
    by (subst map_upt_Suc) simp
  show ?case
    using r
    apply (subst get_loop.simps)
    apply (simp add: get_page_full [where r = r] IH reqs pages del: upt_Suc)
    apply (simp add: dict_set_twice add.commute add.left_commute)
    done
qed

text \<open>
  C1. A paginated GET: the call has a repository, the route resolves to \<open>url\<close>, the
  authentication test passes, and the server answers the requests for pages
  \<open>1, ..., k\<close> with the expected status and arrays \<open>pg 0, ..., pg (k - 1)\<close> of
  exactly 100 elements, and the request for page \<open>k + 1\<close> with an array \<open>pg k\<close> of
  \<open>m < 100\<close> elements. Then \<open>get\<close> returns the elements of all pages concatenated in
  order, \<open>100 k + m\<close> of them, and sends exactly the \<open>k + 1\<close> requests for these
  pages: it stops at the first page that has fewer than \<open>PER_PAGE = 100\<close> elements.
\<close>

theorem get_paginates:
  assumes repo: "or_else (rest_repository self) (gh_repository gh) = Some rp"
    and p0: "initial = (case parameters of None \<Rightarrow> get_parameters_default w | Some d \<Rightarrow> d)"
    and noclash: "\<not> kw_clash [''path'', ''repository'', ''rtype''] initial"
    and url: "route gh path rp ''rest'' initial = Inr url"
    and auth: "authenticated \<Longrightarrow> has_authorization self"
    and req: "req = (\<lambda>i. GET url (rest_headers self)
                (dict_set (dict_set initial ''per_page'' (PInt 100)) ''page'' (PInt (1 + int i))))"
    and full: "\<forall>i<k. \<exists>r. http (req i) = Inr r \<and> status_code r = expected
                 \<and> json r = Some (PList (pg i)) \<and> length (pg i) = 100"
    and short: "\<exists>r. http (req k) = Inr r \<and> status_code r = expected
                 \<and> json r = Some (PList (pg k)) \<and> length (pg k) = m \<and> m < 100"
  shows "\<exists>params' w'.
           get gh http self path parameters expected authenticated w
             = Some (Inr (PList (concat (map pg [0..<Suc k]))), params', w')
           \<and> length (concat (map pg [0..<Suc k])) = 100 * k + m
           \<and> http_log w' = http_log w @ map req [0..<Suc k]
           \<and> length (http_log w') = length (http_log w) + (k + 1)"
proof -
  let ?w = "logger Debug ''Fetching content from URL :: '' (Some (PStr url)) w"
  let ?p = "dict_set initial ''per_page'' (PInt 100)"
  have short': "\<exists>r. http (GET url (rest_headers self) (dict_set ?p ''page'' (PInt (1 + int k)))) = Inr r
      \<and> status_code r = expected \<and> json r = Some (PList (pg k)) \<and> length (pg k) < 100"
    using short by (auto simp: req)
  have full': "\<forall>i<k. \<exists>r. http (GET url (rest_headers self) (dict_set ?p ''page'' (PInt (1 + int i)))) = Inr r
      \<and> status_code r = expected \<and> json r = Some (PList (pg i)) \<and> length (pg i) = 100"
    using full by (simp add: req)
  have loop: "get_loop http (rest_headers self) url expected ?p [] 1 ?w =
      Some (Inr (PList (concat (map pg [0..<Suc k]))),
            dict_set ?p ''page'' (PInt (1 + int k)),
            ?w\<lparr>http_log := http_log ?w @ map req [0..<Suc k]\<rparr>)"
    using get_loop_pages [OF full' short', of "[]" ?w] by (simp add: req)
  have each: "length (pg i) = 100" if "i < k" for i
    using that full by blast
  have len: "length (concat (map pg [0..<n])) = 100 * n" if "n \<le> k" for n
    using that by (induction n) (simp_all add: each)
  have total: "length (concat (map pg [0..<Suc k])) = 100 * k + m"
    using len [of k] short by auto
  show ?thesis
    using repo noclash url auth loop total
    by (cases parameters; cases authenticated)
      (simp_all add: get_def p0 PER_PAGE_def logger_def Let_def del: upt_Suc)
qed

theorem get_paginates_witness:
  "\<exists>params' w'.
     get gh0 two_pages (RestRequest_init gh0 (Some rp0))
       ''/repos/{owner}/{repo}/code-scanning/alerts'' (Some [(''state'', PStr ''open'')])
       200 True w0
       = Some (Inr (PList (replicate 100 (PInt 0) @ [PInt 1, PInt 2])), params', w')
     \<and> length (http_log w') = 2"
proof -
  let ?self = "RestRequest_init gh0 (Some rp0)"
  let ?initial = "[(''state'', PStr ''open'')]"
  let ?url = "''https://api.github.com/repos/A/B/code-scanning/alerts''"
  let ?req = "\<lambda>i. GET ?url (rest_headers ?self)
                (dict_set (dict_set ?initial ''per_page'' (PInt 100)) ''page'' (PInt (1 + int i)))"
  let ?pg = "\<lambda>i::nat. if i = 0 then replicate 100 (PInt 0) else [PInt 1, PInt 2]"
  have repo: "or_else (rest_repository ?self) (gh_repository gh0) = Some rp0"
    by (simp add: RestRequest_init_def or_else_def)
  have p0: "?initial = (case Some ?initial of None \<Rightarrow> get_parameters_default w0 | Some d \<Rightarrow> d)"
    by simp
  have noclash: "\<not> kw_clash [''path'', ''repository'', ''rtype''] ?initial"
    by (simp add: kw_clash_def dict_keys_def)
  have url: "route gh0 ''/repos/{owner}/{repo}/code-scanning/alerts'' rp0 ''rest'' ?initial = Inr ?url"
    by (simp add: route_eval gh0_def rp0_def)
  have auth: "has_authorization ?self"
    by (simp add: has_authorization_def RestRequest_init_def)
  have full: "\<forall>i<1. \<exists>r. two_pages (?req i) = Inr r \<and> status_code r = 200
                 \<and> json r = Some (PList (?pg i)) \<and> length (?pg i) = 100"
    by (simp add: two_pages_def page_of_def answer_def)
  have short: "\<exists>r. two_pages (?req 1) = Inr r \<and> status_code r = 200
                 \<and> json r = Some (PList (?pg 1)) \<and> length (?pg 1) = 2 \<and> (2::nat) < 100"
    by (simp add: two_pages_def page_of_def answer_def)
  from get_paginates [where authenticated = True, OF repo p0 noclash url auth refl full short]
  show ?thesis by (auto simp add: w0_def)
qed

subsection \<open>Authentication\<close>

text \<open>
  The session of a \<open>RestRequest\<close> always has a non-empty \<open>Authorization\<close>
  header, whatever the token is: the header is the text \<open>token \<close> followed by the
  printed token.
\<close>

lemma RestRequest_init_has_authorization: "has_authorization (RestRequest_init gh repository)"
  by (simp add: has_authorization_def RestRequest_init_def)

text \<open>
  C3. With no token configured (\<open>GitHub.token\<close> is \<open>None\<close>), a \<open>get\<close> with
  \<open>authenticated = True\<close> does not fail: the request goes out with the header
  \<open>Authorization: token None\<close> and the server's answer is returned. The same holds
  for \<open>getAlerts\<close>, declared with \<open>authenticated=True\<close> on the decorator.
\<close>

theorem get_authenticated_without_token:
  "gh_token gh0 = None
   \<and> map_option (\<lambda>(out, params, w). (out, http_log w))
        (get gh0 always_empty (RestRequest_init gh0 (Some rp0))
           ''/orgs/{org}/code-scanning/alerts'' (Some [(''state'', PStr ''open'')]) 200 True w0)
     = Some (Inr (PList []),
         [GET ''https://api.github.com/orgs/A/code-scanning/alerts''
            [(''Accept'', ''application/vnd.github.v3+json''),
             (''X-GitHub-Api-Version'', ''2022-11-28''),
             (''Authorization'', ''token None'')]
            [(''state'', PStr ''open''), (''per_page'', PInt 100), (''page'', PInt 1)]])
   \<and> map_option (\<lambda>(out, w). (out, http_log w)) (getAlerts gh0 always_empty cs0 [] [] w0)
     = Some (Inr (PList []),
         [GET ''https://api.github.com/repos/A/B/code-scanning/alerts''
            [(''Accept'', ''application/vnd.github.v3+json''),
             (''X-GitHub-Api-Version'', ''2022-11-28''),
             (''Authorization'', ''token None'')]
            [(''state'', PNone), (''tool_name'', PNone), (''ref'', PNone),
             (''per_page'', PInt 100), (''page'', PInt 1)]])"
  by code_simp

subsection \<open>The decorator\<close>

text \<open>The declared defaults never reach the parameter map.\<close>

lemma build_params_ignores_defaults:
  "build_params names args defaults params i r = build_params names args [] params i r"
  by (induction names arbitrary: params i r) (simp_all add: Let_def)

text \<open>
  C4. \<open>getAlerts\<close> declares \<open>(state="open", tool_name=None, ref=None)\<close>. Called
  with the single argument \<open>"closed"\<close> the wrapper builds
  \<open>{state: "closed", tool_name: None, ref: None}\<close>; called with no argument it builds
  \<open>{state: None, tool_name: None, ref: None}\<close>: the omitted \<open>state\<close> does not get
  its declared default \<open>"open"\<close>.
\<close>

theorem getAlerts_omitted_state_is_None:
  "build_params (fn_args getAlerts_func) [PStr ''closed''] (fn_defaults getAlerts_func) [] 0 False
     = Inr ([(''state'', PStr ''closed''), (''tool_name'', PNone), (''ref'', PNone)], False)
   \<and> build_params (fn_args getAlerts_func) [] (fn_defaults getAlerts_func) [] 0 False
     = Inr ([(''state'', PNone), (''tool_name'', PNone), (''ref'', PNone)], False)"
  by code_simp

text \<open>
  C5. A method that declares \<open>response\<close>, wrapped by the decorator: bound to the
  fetched object, its body would return 7; the wrapper performs the GET and then calls
  the method with the keyword \<open>responce\<close>, which the method does not have, so the
  call ends in a \<open>TypeError\<close> and the body never runs.
\<close>

theorem restGet_response_is_TypeError:
  "py_call number_func [(''response'', PDict [(''number'', PInt 7)])] = Inr (PInt 7)
   \<and> map_option (\<lambda>(out, w). (out, length (http_log w)))
        (restGet gh0 one_alert ''/repos/{owner}/{repo}/code-scanning/alerts/7'' False
           number_func (Some (cs_rest cs0)) [] [] w0)
     = Some (Inl TypeError, 1)"
  by code_simp

subsection \<open>SARIF download\<close>

text \<open>
  C9. A SARIF download that the server answers with 404: \<open>get\<close> raises, and the
  session is left with \<open>Accept: application/sarif+json\<close> in place of the media type
  it had before the call.
\<close>

theorem downloadSARIF_failure_leaves_sarif_accept:
  "dict_get (rest_headers (cs_rest cs0)) ''Accept'' = Some ''application/vnd.github.v3+json''
   \<and> map_option (\<lambda>(out, self, w). (out, dict_get (rest_headers (cs_rest self)) ''Accept''))
        (downloadSARIF gh0 not_found cs0 ''out.sarif'' 1 w0)
     = Some (Inl (Exception ''REST Request failed :: non-expected server error''),
             Some ''application/sarif+json'')"
  by code_simp



subsection \<open>The loop in general\<close>

text \<open>
  The loop writes the page index before it looks at the dictionary, so the index found
  there does not matter.
\<close>

lemma get_page_reset:
  "get_page http hdrs url expected (dict_set params ''page'' x) result page w
     = get_page http hdrs url expected params result page w"
  by (simp add: get_page_def dict_set_twice)

lemma get_loop_reset:
  "get_loop http hdrs url expected (dict_set params ''page'' x) result page w
     = get_loop http hdrs url expected params result page w"
proof -
  have "get_loop http hdrs url expected (dict_set params ''page'' x) result page w
      = (case get_page http hdrs url expected (dict_set params ''page'' x) result page w of
           Ends r \<Rightarrow> Some r
         | Goes_on params' result' w' \<Rightarrow>
             get_loop http hdrs url expected params' result' (page + 1) w')"
    by (rule get_loop.simps)
  also have "\<dots> = (case get_page http hdrs url expected params result page w of
           Ends r \<Rightarrow> Some r
         | Goes_on params' result' w' \<Rightarrow>
             get_loop http hdrs url expected params' result' (page + 1) w')"
    by (simp only: get_page_reset)
  also have "\<dots> = get_loop http hdrs url expected params result page w"
    by (rule get_loop.simps [symmetric])
  finally show ?thesis .
qed

text \<open>Full pages only move the loop forward.\<close>

lemma get_loop_skip:
  assumes "\<forall>i<k. \<exists>r. http (GET url hdrs (dict_set params ''page'' (PInt (page + int i)))) = Inr r
               \<and> status_code r = expected \<and> json r = Some (PList (pg i)) \<and> length (pg i) = 100"
  shows "get_loop http hdrs url expected params result page w =
           get_loop http hdrs url expected params (result @ concat (map pg [0..<k])) (page + int k)
             (w\<lparr>http_log := http_log w @
                 map (\<lambda>i. GET url hdrs (dict_set params ''page'' (PInt (page + int i)))) [0..<k]\<rparr>)"
  using assms
proof (induction k arbitrary: result page w pg)
  case 0
  show ?case by simp
next
  case (Suc k)
  from Suc.prems obtain r where r: "http (GET url hdrs (dict_set params ''page'' (PInt page))) = Inr r"
    "status_code r = expected" "json r = Some (PList (pg 0))" "length (pg 0) = 100"
    by force
  let ?w = "w\<lparr>http_log := http_log w @ [GET url hdrs (dict_set params ''page'' (PInt page))]\<rparr>"
  have full: "\<forall>i<k. \<exists>r. http (GET url hdrs (dict_set params ''page'' (PInt (page + 1 + int i)))) = Inr r
               \<and> status_code r = expected \<and> json r = Some (PList (pg (Suc i))) \<and> length (pg (Suc i)) = 100"
  proof (intro allI impI)
    fix i assume "i < k"
    then have "Suc i < Suc k" by simp
    with Suc.prems show "\<exists>r. http (GET url hdrs (dict_set params ''page'' (PInt (page + 1 + int i)))) = Inr r
               \<and> status_code r = expected \<and> json r = Some (PList (pg (Suc i))) \<and> length (pg (Suc i)) = 100"
      by (fastforce simp: add.commute add.left_commute)
  qed
  have "get_loop http hdrs url expected params result page w
      = get_loop http hdrs url expected (dict_set params ''page'' (PInt page)) (result @ pg 0) (page + 1) ?w"
    using r by (subst get_loop.simps) (simp add: get_page_full [where r = r])
  also have "\<dots> = get_loop http hdrs url expected params (result @ pg 0) (page + 1) ?w"
    by (rule get_loop_reset)
  also have "\<dots> = get_loop http hdrs url expected params
        ((result @ pg 0) @ concat (map (\<lambda>i. pg (Suc i)) [0..<k])) (page + 1 + int k)
        (?w\<lparr>http_log := http_log ?w @
            map (\<lambda>i. GET url hdrs (dict_set params ''page'' (PInt (page + 1 + int i)))) [0..<k]\<rparr>)"
    by (rule Suc.IH [OF full])
  finally have step: "get_loop http hdrs url expected params result page w
      = get_loop http hdrs url expected params
        ((result @ pg 0) @ concat (map (\<lambda>i. pg (Suc i)) [0..<k])) (page + 1 + int k)
        (?w\<lparr>http_log := http_log ?w @
            map (\<lambda>i. GET url hdrs (dict_set params ''page'' (PInt (page + 1 + int i)))) [0..<k]\<rparr>)" .
  have reqs: "map (\<lambda>i. GET url hdrs (dict_set params ''page'' (PInt (page + int i)))) [0..<Suc k]
      = GET url hdrs (dict_set params ''page'' (PInt page))
        # map (\<lambda>i. GET url hdrs (dict_set params ''page'' (PInt (page + 1 + int i)))) [0..<k]"
    by (subst map_upt_Suc) (simp add: add.commute add.left_commute)
  have pages: "concat (map pg [0..<Suc k]) = pg 0 @ concat (map (\<lambda>i. pg (Suc i)) [0..<k])"
    by (subst map_upt_Suc) simp
  have idx: "page + int (Suc k) = page + 1 + int k" by simp
  show ?case
    by (simp only: step reqs pages idx) simp
qed

text \<open>How a pass that meets an unexpected 401 ends, and one that meets an error envelope.\<close>

lemma get_page_401:
  assumes "http (GET url hdrs (dict_set params ''page'' (PInt page))) = Inr r"
    and "status_code r = 401" and "expected \<noteq> 401" and "json r = Some body"
  shows "\<exists>w'. get_page http hdrs url expected params result page w =
           Ends (Inl (Exception ''Authentication Issue''), dict_set params ''page'' (PInt page), w')"
  using assms by (simp add: get_page_def send_def OCTOKIT_ERRORS_def Let_def)

lemma get_page_errors:
  assumes "http (GET url hdrs (dict_set params ''page'' (PInt page))) = Inr r"
    and "status_code r = expected" and "json r = Some (PDict kvs)"
    and "dict_get kvs ''errors'' = Some v" and "truthy v"
  shows "\<exists>w'. get_page http hdrs url expected params result page w =
           Ends (Inl (Exception ''REST Request failed :: error from server''),
                 dict_set params ''page'' (PInt page), w')"
  using assms by (simp add: get_page_def send_def Let_def)

text \<open>
  Every pass, however it ends, leaves the page index in the dictionary and one more
  request in the log.
\<close>

lemma get_page_shape:
  "(case get_page http hdrs url expected params result page w of
      Ends (out, params', w') \<Rightarrow>
        params' = dict_set params ''page'' (PInt page)
        \<and> http_log w' = http_log w @ [GET url hdrs params']
        \<and> get_parameters_default w' = get_parameters_default w
    | Goes_on params' result' w' \<Rightarrow>
        params' = dict_set params ''page'' (PInt page)
        \<and> http_log w' = http_log w @ [GET url hdrs params']
        \<and> get_parameters_default w' = get_parameters_default w)"
  by (simp add: get_page_def send_def logger_def Let_def
      split: sum.split option.split)

lemma get_page_Ends:
  assumes "get_page http hdrs url expected params result page w = Ends (out, params', w')"
  shows "params' = dict_set params ''page'' (PInt page)
         \<and> http_log w' = http_log w @ [GET url hdrs params']
         \<and> get_parameters_default w' = get_parameters_default w"
  using get_page_shape [where http = http and hdrs = hdrs and url = url and expected = expected
      and params = params and result = result and page = page and w = w] assms
  by simp

lemma get_page_Goes_on:
  assumes "get_page http hdrs url expected params result page w = Goes_on params' result' w'"
  shows "params' = dict_set params ''page'' (PInt page)
         \<and> http_log w' = http_log w @ [GET url hdrs params']
         \<and> get_parameters_default w' = get_parameters_default w"
  using get_page_shape [where http = http and hdrs = hdrs and url = url and expected = expected
      and params = params and result = result and page = page and w = w] assms
  by simp

lemmas get_loop_induct = get_loop.raw_induct [rotated 1, consumes 1, case_names step]

text \<open>
  Whenever the loop comes back, with a result or an exception, the dictionary holds the
  index of the last page requested and the log has one request per page.
\<close>

lemma get_loop_effect_aux:
  assumes "get_loop http hdrs url expected params result page w = Some y"
  shows "\<exists>n. fst (snd y) = dict_set params ''page'' (PInt (page + int n))
           \<and> http_log (snd (snd y)) = http_log w @
               map (\<lambda>i. GET url hdrs (dict_set params ''page'' (PInt (page + int i)))) [0..<Suc n]
           \<and> get_parameters_default (snd (snd y)) = get_parameters_default w"
  using assms
proof (induction rule: get_loop_induct)
  case (step loop http hdrs url expected params result page w y)
  show ?case
  proof (cases "get_page http hdrs url expected params result page w")
    case (Ends r)
    with step(2) have "get_page http hdrs url expected params result page w
        = Ends (fst y, fst (snd y), snd (snd y))"
      by simp
    from get_page_Ends [OF this] show ?thesis
      by (intro exI [of _ 0]) simp
  next
    case (Goes_on p1 r1 w1)
    from get_page_Goes_on [OF this]
    have p1: "p1 = dict_set params ''page'' (PInt page)"
      and w1: "http_log w1 = http_log w @ [GET url hdrs p1]"
      and d1: "get_parameters_default w1 = get_parameters_default w" by simp_all
    from step(2) Goes_on have "loop http hdrs url expected p1 r1 (page + 1) w1 = Some y"
      by simp
    then have "\<exists>n. fst (snd y) = dict_set p1 ''page'' (PInt (page + 1 + int n))
        \<and> http_log (snd (snd y)) = http_log w1 @
            map (\<lambda>i. GET url hdrs (dict_set p1 ''page'' (PInt (page + 1 + int i)))) [0..<Suc n]
        \<and> get_parameters_default (snd (snd y)) = get_parameters_default w1"
      by (rule step(1))
    then obtain n where
      n: "fst (snd y) = dict_set p1 ''page'' (PInt (page + 1 + int n))"
         "http_log (snd (snd y)) = http_log w1 @
            map (\<lambda>i. GET url hdrs (dict_set p1 ''page'' (PInt (page + 1 + int i)))) [0..<Suc n]"
         "get_parameters_default (snd (snd y)) = get_parameters_default w1"
      by blast
    have reqs: "map (\<lambda>i. GET url hdrs (dict_set params ''page'' (PInt (page + int i)))) [0..<Suc (Suc n)]
      = GET url hdrs p1
        # map (\<lambda>i. GET url hdrs (dict_set p1 ''page'' (PInt (page + 1 + int i)))) [0..<Suc n]"
      by (subst map_upt_Suc) (simp add: p1 dict_set_twice add.commute add.left_commute)
    show ?thesis
    proof (intro exI [of _ "Suc n"] conjI)
      show "fst (snd y) = dict_set params ''page'' (PInt (page + int (Suc n)))"
        using n(1) by (simp add: p1 dict_set_twice add.commute add.left_commute)
      show "http_log (snd (snd y)) = http_log w @
          map (\<lambda>i. GET url hdrs (dict_set params ''page'' (PInt (page + int i)))) [0..<Suc (Suc n)]"
        by (simp only: n(2) w1 reqs) simp
      show "get_parameters_default (snd (snd y)) = get_parameters_default w"
        by (simp only: n(3) d1)
    qed
  qed
qed

subsection \<open>Status 401\<close>

lemma get_enters_loop:
  assumes repo: "or_else (rest_repository self) (gh_repository gh) = Some rp"
    and p0: "initial = (case parameters of None \<Rightarrow> get_parameters_default w | Some d \<Rightarrow> d)"
    and noclash: "\<not> kw_clash [''path'', ''repository'', ''rtype''] initial"
    and url: "route gh path rp ''rest'' initial = Inr url"
    and auth: "authenticated \<Longrightarrow> has_authorization self"
  shows "get gh http self path parameters expected authenticated w =
           (case get_loop http (rest_headers self) url expected
                   (dict_set initial ''per_page'' (PInt 100)) [] 1
                   (logger Debug ''Fetching content from URL :: '' (Some (PStr url)) w) of
              None \<Rightarrow> None
            | Some (out, params, w') \<Rightarrow>
                Some (out, params,
                      case parameters of
                        None \<Rightarrow> w'\<lparr>get_parameters_default := params\<rparr>
                      | Some d \<Rightarrow> w'))"
  using repo noclash url auth
  by (cases authenticated) (simp_all add: get_def p0 [symmetric] PER_PAGE_def Let_def)

lemma get_loop_401:
  assumes full: "\<forall>i<k. \<exists>r. http (GET url hdrs (dict_set params ''page'' (PInt (page + int i)))) = Inr r
               \<and> status_code r = expected \<and> json r = Some (PList (pg i)) \<and> length (pg i) = 100"
    and last: "http (GET url hdrs (dict_set params ''page'' (PInt (page + int k)))) = Inr r"
      "status_code r = 401" "expected \<noteq> 401" "json r = Some body"
  shows "\<exists>w'. get_loop http hdrs url expected params result page w
           = Some (Inl (Exception ''Authentication Issue''),
                   dict_set params ''page'' (PInt (page + int k)), w')
           \<and> http_log w' = http_log w @
               map (\<lambda>i. GET url hdrs (dict_set params ''page'' (PInt (page + int i)))) [0..<Suc k]"
proof -
  let ?result = "result @ concat (map pg [0..<k])"
  let ?w = "w\<lparr>http_log := http_log w @
                 map (\<lambda>i. GET url hdrs (dict_set params ''page'' (PInt (page + int i)))) [0..<k]\<rparr>"
  obtain w' where ends: "get_page http hdrs url expected params ?result (page + int k) ?w =
      Ends (Inl (Exception ''Authentication Issue''), dict_set params ''page'' (PInt (page + int k)), w')"
    using get_page_401 [where http = http, OF last] by blast
  from get_page_Ends [OF ends]
  have log: "http_log w' = http_log w @
      map (\<lambda>i. GET url hdrs (dict_set params ''page'' (PInt (page + int i)))) [0..<Suc k]"
    by simp
  from ends have "get_loop http hdrs url expected params ?result (page + int k) ?w =
      Some (Inl (Exception ''Authentication Issue''), dict_set params ''page'' (PInt (page + int k)), w')"
    by (subst get_loop.simps) simp
  then have "get_loop http hdrs url expected params result page w =
      Some (Inl (Exception ''Authentication Issue''), dict_set params ''page'' (PInt (page + int k)), w')"
    by (simp only: get_loop_skip [OF full, symmetric])
  with log show ?thesis by blast
qed

text \<open>
  A 401 that the caller does not expect, with a body that decodes as JSON, met after
  any number of full pages: \<open>get\<close> raises \<open>Exception("Authentication Issue")\<close>
  at once, the request that got the 401 being the last one sent.
\<close>

lemma get_401:
  assumes repo: "or_else (rest_repository self) (gh_repository gh) = Some rp"
    and p0: "initial = (case parameters of None \<Rightarrow> get_parameters_default w | Some d \<Rightarrow> d)"
    and noclash: "\<not> kw_clash [''path'', ''repository'', ''rtype''] initial"
    and url: "route gh path rp ''rest'' initial = Inr url"
    and auth: "authenticated \<Longrightarrow> has_authorization self"
    and req: "req = (\<lambda>i. GET url (rest_headers self)
                (dict_set (dict_set initial ''per_page'' (PInt 100)) ''page'' (PInt (1 + int i))))"
    and full: "\<forall>i<k. \<exists>r. http (req i) = Inr r
               \<and> status_code r = expected \<and> json r = Some (PList (pg i)) \<and> length (pg i) = 100"
    and last: "http (req k) = Inr r"
      "status_code r = 401" "expected \<noteq> 401" "json r = Some body"
  shows "\<exists>params' w'. get gh http self path parameters expected authenticated w
           = Some (Inl (Exception ''Authentication Issue''), params', w')
           \<and> http_log w' = http_log w @ map req [0..<Suc k]"
proof -
  let ?w = "logger Debug ''Fetching content from URL :: '' (Some (PStr url)) w"
  let ?p = "dict_set initial ''per_page'' (PInt 100)"
  have full': "\<forall>i<k. \<exists>r. http (GET url (rest_headers self) (dict_set ?p ''page'' (PInt (1 + int i)))) = Inr r
      \<and> status_code r = expected \<and> json r = Some (PList (pg i)) \<and> length (pg i) = 100"
    using full by (simp add: req)
  have last': "http (GET url (rest_headers self) (dict_set ?p ''page'' (PInt (1 + int k)))) = Inr r"
    using last(1) by (simp add: req)
  from get_loop_401 [OF full' last' last(2-4), of "[]" ?w]
  obtain w' where loop: "get_loop http (rest_headers self) url expected ?p [] 1 ?w
      = Some (Inl (Exception ''Authentication Issue''), dict_set ?p ''page'' (PInt (1 + int k)), w')"
    and log: "http_log w' = http_log ?w @ map req [0..<Suc k]"
    by (auto simp: req)
  let ?w' = "case parameters of
               None \<Rightarrow> w'\<lparr>get_parameters_default := dict_set ?p ''page'' (PInt (1 + int k))\<rparr>
             | Some d \<Rightarrow> w'"
  have "get gh http self path parameters expected authenticated w
      = Some (Inl (Exception ''Authentication Issue''), dict_set ?p ''page'' (PInt (1 + int k)), ?w')"
    by (simp add: get_enters_loop [OF repo p0 noclash url auth] loop)
  moreover have "http_log ?w' = http_log w @ map req [0..<Suc k]"
    using log by (cases parameters) (simp_all add: logger_def del: upt_Suc)
  ultimately show ?thesis by blast
qed

text \<open>\<open>postJson\<close> looks at the status before it decodes the body.\<close>

lemma postJson_401:
  assumes "or_else (rest_repository self) (gh_repository gh) = Some rp"
    and "route gh path rp ''rest'' [] = Inr url"
    and "http (POST url (rest_headers self) data) = Inr r"
    and "status_code r = 401" and "expected \<noteq> 401"
  shows "fst (postJson gh http self path data expected w) = Inl (Exception ''Authentication Issue'')
         \<and> http_log (snd (postJson gh http self path data expected w))
             = http_log w @ [POST url (rest_headers self) data]"
  using assms by (simp add: postJson_def send_def logger_def OCTOKIT_ERRORS_def Let_def)

text \<open>
  C7. A response with status 401 whose body is not JSON, an HTML page as a gateway sends
  it, to a call that expects 200. \<open>get\<close> decodes the body before it looks at the
  status, so it raises the decoding error and not the failure the status table gives for
  401. \<open>postJson\<close> raises \<open>Exception("Authentication Issue")\<close> for the same
  response, and so does \<open>get\<close> when the body is JSON. Each call sends one request.
\<close>

theorem get_unauthorized_page_is_decode_error:
  "map_option (\<lambda>(out, params, w). (out, length (http_log w)))
     (get gh0 unauthorized_page (RestRequest_init gh0 (Some rp0))
        ''/repos/{owner}/{repo}/code-scanning/alerts'' (Some []) 200 False w0)
     = Some (Inl JSONDecodeError, 1)
   \<and> fst (postJson gh0 unauthorized_page (RestRequest_init gh0 (Some rp0))
        ''/repos/{owner}/{repo}/code-scanning/alerts'' (PDict []) 200 w0)
     = Inl (Exception ''Authentication Issue'')
   \<and> map_option (\<lambda>(out, params, w). (out, length (http_log w)))
     (get gh0 bad_credentials (RestRequest_init gh0 (Some rp0))
        ''/repos/{owner}/{repo}/code-scanning/alerts'' (Some []) 200 False w0)
     = Some (Inl (Exception ''Authentication Issue''), 1)"
  by code_simp

subsection \<open>Error envelopes\<close>

lemma get_loop_errors:
  assumes full: "\<forall>i<k. \<exists>r. http (GET url hdrs (dict_set params ''page'' (PInt (page + int i)))) = Inr r
               \<and> status_code r = expected \<and> json r = Some (PList (pg i)) \<and> length (pg i) = 100"
    and last: "http (GET url hdrs (dict_set params ''page'' (PInt (page + int k)))) = Inr r"
      "status_code r = expected" "json r = Some (PDict kvs)"
      "dict_get kvs ''errors'' = Some v" "truthy v"
  shows "\<exists>params' w'. get_loop http hdrs url expected params result page w
           = Some (Inl (Exception ''REST Request failed :: error from server''), params', w')"
proof -
  let ?result = "result @ concat (map pg [0..<k])"
  let ?w = "w\<lparr>http_log := http_log w @
                 map (\<lambda>i. GET url hdrs (dict_set params ''page'' (PInt (page + int i)))) [0..<k]\<rparr>"
  obtain w' where "get_page http hdrs url expected params ?result (page + int k) ?w =
      Ends (Inl (Exception ''REST Request failed :: error from server''),
            dict_set params ''page'' (PInt (page + int k)), w')"
    using get_page_errors [where http = http, OF last] by blast
  then have "get_loop http hdrs url expected params ?result (page + int k) ?w =
      Some (Inl (Exception ''REST Request failed :: error from server''),
            dict_set params ''page'' (PInt (page + int k)), w')"
    by (subst get_loop.simps) simp
  then show ?thesis
    by (simp only: get_loop_skip [OF full, symmetric]) blast
qed

lemma get_errors:
  assumes repo: "or_else (rest_repository self) (gh_repository gh) = Some rp"
    and p0: "initial = (case parameters of None \<Rightarrow> get_parameters_default w | Some d \<Rightarrow> d)"
    and noclash: "\<not> kw_clash [''path'', ''repository'', ''rtype''] initial"
    and url: "route gh path rp ''rest'' initial = Inr url"
    and auth: "authenticated \<Longrightarrow> has_authorization self"
    and full: "\<forall>i<k. \<exists>r. http (GET url (rest_headers self)
                 (dict_set (dict_set initial ''per_page'' (PInt 100)) ''page'' (PInt (1 + int i)))) = Inr r
               \<and> status_code r = 200 \<and> json r = Some (PList (pg i)) \<and> length (pg i) = 100"
    and last: "http (GET url (rest_headers self)
                 (dict_set (dict_set initial ''per_page'' (PInt 100)) ''page'' (PInt (1 + int k)))) = Inr r"
      "status_code r = 200" "json r = Some (PDict kvs)"
      "dict_get kvs ''errors'' = Some v" "truthy v"
  shows "\<exists>params' w'. get gh http self path parameters 200 authenticated w
           = Some (Inl (Exception ''REST Request failed :: error from server''), params', w')"
proof -
  from get_loop_errors [OF full last]
  obtain params' w' where "get_loop http (rest_headers self) url 200
      (dict_set initial ''per_page'' (PInt 100)) [] 1
      (logger Debug ''Fetching content from URL :: '' (Some (PStr url)) w)
      = Some (Inl (Exception ''REST Request failed :: error from server''), params', w')"
    by blast
  then show ?thesis
    by (simp add: get_enters_loop [OF repo p0 noclash url auth])
qed

lemma warn_errors_objects:
  "list_all is_dict errs \<Longrightarrow>
     warn_errors errs w =
       (None, w\<lparr>logged := logged w @
                   map (\<lambda>err. Log Warning ''GraphQL Query failed :: '' (message_of err)) errs\<rparr>)"
proof (induction errs arbitrary: w)
  case Nil
  show ?case by simp
next
  case (Cons err errs)
  then obtain kvs where "err = PDict kvs" by (cases err) simp_all
  with Cons show ?case
    by (simp add: logger_def message_of_def split: option.split)
qed

lemma query_errors:
  assumes "dict_get (gql_queries self) name = Some query_content" and "query_content \<noteq> []"
    and "formatQuery substitute query_content options = Inr q"
    and "http (POST (gh_api_graphql gh) (gql_headers self) (PDict [(''query'', PStr q)])) = Inr r"
    and "status_code r = 200" and "json r = Some (PDict kvs)"
    and "dict_get kvs ''errors'' = Some (PList errs)" and "list_all is_dict errs"
  shows "query gh http substitute self name options w =
           (Inr (PDict kvs),
            w\<lparr>http_log := http_log w @
                   [POST (gh_api_graphql gh) (gql_headers self) (PDict [(''query'', PStr q)])],
               logged := logged w @
                   map (\<lambda>err. Log Warning ''GraphQL Query failed :: '' (message_of err)) errs\<rparr>)"
  using assms
  by (cases "errs = []") (simp_all add: query_def send_def warn_errors_objects del: warn_errors.simps)


text \<open>
  C2 (amended). A response with status 200 whose decoded body is an object with an
  \<open>errors\<close> field. \<open>get\<close> (expecting 200): when the value of the field is
  truthy (not \<open>None\<close>, \<open>False\<close>, 0 or empty), the call raises
  \<open>Exception("REST Request failed :: error from server")\<close> and returns no body,
  also when earlier pages were full. \<open>query\<close>: when the field is a list of objects,
  the call does not raise; it logs one warning per reported error, in order, with the
  error's \<open>message\<close>, and returns the whole body.
\<close>

theorem errors_envelope_rest_raises_graphql_returns:
  "(or_else (rest_repository self) (gh_repository gh) = Some rp
      \<and> initial = (case parameters of None \<Rightarrow> get_parameters_default w | Some d \<Rightarrow> d)
      \<and> \<not> kw_clash [''path'', ''repository'', ''rtype''] initial
      \<and> route gh path rp ''rest'' initial = Inr url
      \<and> (authenticated \<longrightarrow> has_authorization self)
      \<and> (\<forall>i<k. \<exists>r. http (GET url (rest_headers self)
                 (dict_set (dict_set initial ''per_page'' (PInt 100)) ''page'' (PInt (1 + int i)))) = Inr r
               \<and> status_code r = 200 \<and> json r = Some (PList (pg i)) \<and> length (pg i) = 100)
      \<and> http (GET url (rest_headers self)
                 (dict_set (dict_set initial ''per_page'' (PInt 100)) ''page'' (PInt (1 + int k)))) = Inr r
      \<and> status_code r = 200 \<and> json r = Some (PDict kvs)
      \<and> dict_get kvs ''errors'' = Some v \<and> truthy v
    \<longrightarrow> (\<exists>params' w'. get gh http self path parameters 200 authenticated w
           = Some (Inl (Exception ''REST Request failed :: error from server''), params', w')))
   \<and> (dict_get (gql_queries gql) name = Some query_content \<and> query_content \<noteq> []
      \<and> formatQuery substitute query_content options = Inr q
      \<and> http (POST (gh_api_graphql gh) (gql_headers gql) (PDict [(''query'', PStr q)])) = Inr r'
      \<and> status_code r' = 200 \<and> json r' = Some (PDict kvs')
      \<and> dict_get kvs' ''errors'' = Some (PList errs) \<and> list_all is_dict errs
    \<longrightarrow> query gh http substitute gql name options w =
           (Inr (PDict kvs'),
            w\<lparr>http_log := http_log w @
                   [POST (gh_api_graphql gh) (gql_headers gql) (PDict [(''query'', PStr q)])],
               logged := logged w @
                   map (\<lambda>err. Log Warning ''GraphQL Query failed :: '' (message_of err)) errs\<rparr>))"
  using get_errors [where self = self and gh = gh and rp = rp and initial = initial
      and parameters = parameters and w = w and path = path and url = url
      and authenticated = authenticated and k = k and http = http
      and pg = pg and r = r and kvs = kvs and v = v]
    query_errors [where self = gql and name = name and query_content = query_content
      and substitute = substitute and options = options and q = q and http = http and gh = gh
      and r = r' and kvs = kvs' and errs = errs and w = w]
  by blast

theorem errors_envelope_witness:
  "(\<exists>params' w'.
      get gh0 validation_failed (RestRequest_init gh0 (Some rp0))
        ''/repos/{owner}/{repo}/code-scanning/alerts/7'' (Some []) 200 False w0
        = Some (Inl (Exception ''REST Request failed :: error from server''), params', w'))
   \<and> fst (query gh0 partial_data keep_text gql0 ''GetRepository'' [] w0)
      = Inr (PDict [(''data'', PDict [(''repository'', PNone)]),
                    (''errors'', PList [PDict [(''message'', PStr ''Could not resolve'')],
                                        PDict [(''type'', PStr ''NOT_FOUND'')]])])
   \<and> logged (snd (query gh0 partial_data keep_text gql0 ''GetRepository'' [] w0))
      = [Log Warning ''GraphQL Query failed :: '' (Some (PStr ''Could not resolve'')),
         Log Warning ''GraphQL Query failed :: '' (Some PNone)]"
proof -
  let ?self = "RestRequest_init gh0 (Some rp0)"
  let ?url = "''https://api.github.com/repos/A/B/code-scanning/alerts/7''"
  let ?kvs = "[(''message'', PStr ''Validation Failed''),
               (''errors'', PList [PDict [(''code'', PStr ''invalid'')]])]"
  let ?kvs' = "[(''data'', PDict [(''repository'', PNone)]),
                (''errors'', PList [PDict [(''message'', PStr ''Could not resolve'')],
                                    PDict [(''type'', PStr ''NOT_FOUND'')]])]"
  let ?q = "''query { repository { name } }''"
  have repo: "or_else (rest_repository ?self) (gh_repository gh0) = Some rp0"
    by (simp add: RestRequest_init_def or_else_def)
  have noclash: "\<not> kw_clash [''path'', ''repository'', ''rtype''] []"
    by (simp add: kw_clash_def dict_keys_def)
  have url: "route gh0 ''/repos/{owner}/{repo}/code-scanning/alerts/7'' rp0 ''rest'' [] = Inr ?url"
    by (simp add: route_eval gh0_def rp0_def)
  have first: "validation_failed (GET ?url (rest_headers ?self)
                 (dict_set (dict_set [] ''per_page'' (PInt 100)) ''page'' (PInt (1 + int 0))))
               = Inr \<lparr>status_code = 200, content = [], json = Some (PDict ?kvs)\<rparr>"
    by (simp add: validation_failed_def answer_def)
  have a: "\<exists>params' w'.
      get gh0 validation_failed ?self ''/repos/{owner}/{repo}/code-scanning/alerts/7'' (Some []) 200 False w0
        = Some (Inl (Exception ''REST Request failed :: error from server''), params', w')"
    using errors_envelope_rest_raises_graphql_returns
      [where self = ?self and gh = gh0 and rp = rp0 and initial = "[]" and parameters = "Some []"
        and w = w0 and path = "''/repos/{owner}/{repo}/code-scanning/alerts/7''" and url = ?url
        and authenticated = False and k = 0 and http = validation_failed
        and r = "\<lparr>status_code = 200, content = [], json = Some (PDict ?kvs)\<rparr>"
        and kvs = ?kvs and v = "PList [PDict [(''code'', PStr ''invalid'')]]",
        THEN conjunct1]
      repo noclash url first
    by simp
  have found: "dict_get (gql_queries gql0) ''GetRepository'' = Some ?q"
    by (simp add: gql0_def GraphQLRequest_init_def)
  have fmt: "formatQuery keep_text ?q [] = Inr ?q"
    by (simp add: formatQuery_def keep_text_def kw_clash_def dict_keys_def)
  have post: "partial_data (POST (gh_api_graphql gh0) (gql_headers gql0) (PDict [(''query'', PStr ?q)]))
               = Inr \<lparr>status_code = 200, content = [], json = Some (PDict ?kvs')\<rparr>"
    by (simp add: partial_data_def answer_def)
  have b: "query gh0 partial_data keep_text gql0 ''GetRepository'' [] w0 =
           (Inr (PDict ?kvs'),
            w0\<lparr>http_log := http_log w0 @
                   [POST (gh_api_graphql gh0) (gql_headers gql0) (PDict [(''query'', PStr ?q)])],
               logged := logged w0 @
                   map (\<lambda>err. Log Warning ''GraphQL Query failed :: '' (message_of err))
                     [PDict [(''message'', PStr ''Could not resolve'')],
                      PDict [(''type'', PStr ''NOT_FOUND'')]]\<rparr>)"
    using errors_envelope_rest_raises_graphql_returns
      [where gql = gql0 and gh = gh0 and name = "''GetRepository''" and query_content = ?q
        and substitute = keep_text and options = "[]" and q = ?q and http = partial_data
        and r' = "\<lparr>status_code = 200, content = [], json = Some (PDict ?kvs')\<rparr>"
        and kvs' = ?kvs'
        and errs = "[PDict [(''message'', PStr ''Could not resolve'')],
                     PDict [(''type'', PStr ''NOT_FOUND'')]]"
        and w = w0, THEN conjunct2]
      found fmt post
    by simp
  from a show ?thesis
    unfolding b by (simp add: w0_def message_of_def)
qed

text \<open>
  Where the claim as stated fails: for the body \<open>{"errors": []}\<close> with status 200,
  \<open>get\<close> returns the body.
\<close>

theorem errors_envelope_counterexample:
  "map_option fst
     (get gh0 no_errors (RestRequest_init gh0 (Some rp0))
        ''/repos/{owner}/{repo}/code-scanning/alerts/7'' (Some []) 200 False w0)
     = Some (Inr (PDict [(''errors'', PList [])]))"
  by code_simp


subsection \<open>The parameters dictionary\<close>

text \<open>
  C10 (amended). A call of \<open>get\<close> that has a repository, resolves its route and
  passes the authentication test, and that comes back, with a result or with an
  exception: the dictionary it worked on is the caller's, or the shared default when the
  argument was omitted, and it is left holding, besides what it held,
  \<open>per_page = 100\<close> and \<open>page = \<close> the index of the last page requested. The
  requests sent are those for pages 1 to that index. When the argument was omitted the
  shared default dictionary is left in that state for the next such call; otherwise the
  shared default is untouched.
\<close>

theorem get_leaves_paging_keys:
  assumes repo: "or_else (rest_repository self) (gh_repository gh) = Some rp"
    and p0: "initial = (case parameters of None \<Rightarrow> get_parameters_default w | Some d \<Rightarrow> d)"
    and noclash: "\<not> kw_clash [''path'', ''repository'', ''rtype''] initial"
    and url: "route gh path rp ''rest'' initial = Inr url"
    and auth: "authenticated \<Longrightarrow> has_authorization self"
    and ret: "get gh http self path parameters expected authenticated w = Some (out, params', w')"
  shows "\<exists>n. params' = dict_set (dict_set initial ''per_page'' (PInt 100)) ''page'' (PInt (1 + int n))
           \<and> dict_get params' ''per_page'' = Some (PInt 100)
           \<and> dict_get params' ''page'' = Some (PInt (1 + int n))
           \<and> http_log w' = http_log w @
               map (\<lambda>i. GET url (rest_headers self)
                     (dict_set (dict_set initial ''per_page'' (PInt 100)) ''page'' (PInt (1 + int i))))
                 [0..<Suc n]
           \<and> get_parameters_default w' =
               (case parameters of None \<Rightarrow> params' | Some d \<Rightarrow> get_parameters_default w)"
proof -
  let ?w = "logger Debug ''Fetching content from URL :: '' (Some (PStr url)) w"
  let ?p = "dict_set initial ''per_page'' (PInt 100)"
  from ret obtain w1 where
    loop: "get_loop http (rest_headers self) url expected ?p [] 1 ?w = Some (out, params', w1)"
    and w': "w' = (case parameters of None \<Rightarrow> w1\<lparr>get_parameters_default := params'\<rparr> | Some d \<Rightarrow> w1)"
    by (auto simp: get_enters_loop [OF repo p0 noclash url auth] split: option.splits)
  from get_loop_effect_aux [OF loop] obtain n where
    n: "params' = dict_set ?p ''page'' (PInt (1 + int n))"
       "http_log w1 = http_log ?w @
          map (\<lambda>i. GET url (rest_headers self) (dict_set ?p ''page'' (PInt (1 + int i)))) [0..<Suc n]"
       "get_parameters_default w1 = get_parameters_default ?w"
    by auto
  have "dict_get params' ''per_page'' = Some (PInt 100)"
    by (simp add: n(1) dict_get_set_other dict_get_set_same)
  moreover have "dict_get params' ''page'' = Some (PInt (1 + int n))"
    by (simp add: n(1) dict_get_set_same)
  moreover have "http_log w' = http_log w @
      map (\<lambda>i. GET url (rest_headers self) (dict_set ?p ''page'' (PInt (1 + int i)))) [0..<Suc n]"
    using n(2) by (cases parameters) (simp_all add: w' logger_def del: upt_Suc)
  moreover have "get_parameters_default w' =
      (case parameters of None \<Rightarrow> params' | Some d \<Rightarrow> get_parameters_default w)"
    using n(3) by (cases parameters) (simp_all add: w' logger_def)
  ultimately show ?thesis
    using n(1) by blast
qed

theorem get_leaves_paging_keys_witness:
  "\<exists>out w'.
     get gh0 always_empty (RestRequest_init gh0 (Some rp0))
       ''/repos/{owner}/{repo}/code-scanning/codeql/databases'' None 200 False w0
       = Some (out, [(''per_page'', PInt 100), (''page'', PInt 1)], w')
     \<and> get_parameters_default w0 = []
     \<and> get_parameters_default w' = [(''per_page'', PInt 100), (''page'', PInt 1)]"
proof -
  let ?self = "RestRequest_init gh0 (Some rp0)"
  let ?url = "''https://api.github.com/repos/A/B/code-scanning/codeql/databases''"
  let ?w = "w0\<lparr>http_log := [GET ?url (rest_headers ?self) [(''per_page'', PInt 100), (''page'', PInt 1)]],
               logged := [Log Debug ''Fetching content from URL :: '' (Some (PStr ?url))],
               get_parameters_default := [(''per_page'', PInt 100), (''page'', PInt 1)]\<rparr>"
  have repo: "or_else (rest_repository ?self) (gh_repository gh0) = Some rp0"
    by (simp add: RestRequest_init_def or_else_def)
  have p0: "[] = (case None of None \<Rightarrow> get_parameters_default w0 | Some d \<Rightarrow> d)"
    by (simp add: w0_def)
  have noclash: "\<not> kw_clash [''path'', ''repository'', ''rtype''] []"
    by (simp add: kw_clash_def dict_keys_def)
  have url: "route gh0 ''/repos/{owner}/{repo}/code-scanning/codeql/databases'' rp0 ''rest'' [] = Inr ?url"
    by (simp add: route_eval gh0_def rp0_def)
  have ret: "get gh0 always_empty ?self ''/repos/{owner}/{repo}/code-scanning/codeql/databases''
       None 200 False w0 = Some (Inr (PList []), [(''per_page'', PInt 100), (''page'', PInt 1)], ?w)"
    by code_simp
  from get_leaves_paging_keys [where authenticated = False, OF repo p0 noclash url _ ret]
  have "get_parameters_default ?w = [(''per_page'', PInt 100), (''page'', PInt 1)]"
    by simp
  with ret show ?thesis
    by (intro exI [of _ "Inr (PList [])"] exI [of _ ?w]) (simp add: w0_def)
qed

text \<open>
  Where the claim as stated fails: a call that raises before the loop, here for a
  placeholder without a value, leaves the dictionary it was given as it was.
\<close>

theorem get_leaves_paging_keys_counterexample:
  "get gh0 always_empty (RestRequest_init gh0 (Some rp0))
     ''/repos/{owner}/{repo}/code-scanning/alerts/{alert_number}''
     (Some [(''state'', PStr ''open'')]) 200 False w0
     = Some (Inl (KeyError ''alert_number''), [(''state'', PStr ''open'')], w0)"
  by code_simp


subsection \<open>Routes\<close>














end
